theory Spec2Isabelle
  imports Main "HOL-Library.Word" "HOL-Library.Sublist"
begin

unbundle bit_operations_syntax

section \<open>Common data: bytes, exceptions, little-endian fields\<close>

text \<open>
  A Python \<open>bytes\<close> value is a list of 8-bit words; indexing it gives an unbounded
  integer in 0..255 (\<open>unat\<close>). The exceptions that the modelled functions raise are
  the constructors of \<open>py_error\<close>; \<open>LibraryError\<close> stands for an \<open>Exception\<close> raised
  inside an external library, \<open>KeyboardInterrupt\<close> for a \<open>BaseException\<close> that is not
  an \<open>Exception\<close>.
\<close>

type_synonym byte = "8 word"

datatype py_error =
    StructError
  | IndexError
  | ValueError
  | ImportError
  | NotImplementedError
  | LibraryError
  | KeyboardInterrupt

section \<open>repository.py: ResourceEntry.get_guid_path\<close>

text \<open>The format specification \<open>:02x\<close>: two lowercase hexadecimal digits.\<close>

definition hex_digit :: "nat \<Rightarrow> char" where
  "hex_digit d = ''0123456789abcdef'' ! d"

definition hex2 :: "byte \<Rightarrow> string" where
  "hex2 b = [hex_digit (unat b div 16), hex_digit (unat b mod 16)]"

text \<open>
  The f-string of \<open>get_guid_path\<close> is a sequence of pieces, evaluated left to right:
  \<open>Hx i\<close> is the replacement field \<open>{h[i]:02x}\<close>, which raises IndexError when the hash
  has no byte \<open>i\<close>; \<open>Lit s\<close> is literal text.
\<close>

datatype piece = Hx nat | Lit string

fun render :: "byte list \<Rightarrow> piece list \<Rightarrow> py_error + string" where
  "render h [] = Inr []"
| "render h (Lit s # ps) =
     (case render h ps of Inl e \<Rightarrow> Inl e | Inr r \<Rightarrow> Inr (s @ r))"
| "render h (Hx i # ps) =
     (if i < length h
      then (case render h ps of Inl e \<Rightarrow> Inl e | Inr r \<Rightarrow> Inr (hex2 (h ! i) @ r))
      else Inl IndexError)"

definition get_guid_path :: "byte list \<Rightarrow> py_error + string" where
  "get_guid_path h = render h
     [Hx 0, Lit ''/'',
      Hx 0, Hx 1, Hx 2, Hx 3, Lit ''-'',
      Hx 4, Hx 5, Lit ''-'',
      Hx 6, Hx 7, Lit ''-'',
      Hx 8, Hx 9, Lit ''-'',
      Hx 10, Hx 11, Hx 12, Hx 13, Hx 14, Hx 15]"

text \<open>
  The layout the specification describes, \<open>XX/XXXXXXXX-XXXX-XXXX-XXXX-XXXXXXXXXXXX\<close>:
  the directory is the first byte, the file name has groups of 4, 2, 2, 2 and 6 bytes.
\<close>

definition hex_group :: "byte list \<Rightarrow> string" where
  "hex_group bs = concat (map hex2 bs)"

definition guid_layout :: "byte list \<Rightarrow> string" where
  "guid_layout h =
     hex_group (take 1 h) @ ''/'' @
     hex_group (take 4 h) @ ''-'' @
     hex_group (take 2 (drop 4 h)) @ ''-'' @
     hex_group (take 2 (drop 6 h)) @ ''-'' @
     hex_group (take 2 (drop 8 h)) @ ''-'' @
     hex_group (take 6 (drop 10 h))"

definition lower_hex :: "char \<Rightarrow> bool" where
  "lower_hex c = (c \<in> set ''0123456789abcdef'')"

section \<open>Properties of get_guid_path\<close>

lemma hex_digit_lower: "d < 16 \<Longrightarrow> lower_hex (hex_digit d)"
  unfolding lower_hex_def hex_digit_def by (rule nth_mem) simp

lemma hex2_lower: "c \<in> set (hex2 b) \<Longrightarrow> lower_hex c"
proof -
  assume c: "c \<in> set (hex2 b)"
  have "unat b < 256" using unsigned_less [of b] by simp
  then have "unat b div 16 < 16" by simp
  with c show ?thesis by (auto simp: hex2_def hex_digit_lower)
qed

lemma hex2_length: "length (hex2 b) = 2"
  by (simp add: hex2_def)

lemma list16:
  assumes "length (h :: 'a list) = 16"
  obtains a0 a1 a2 a3 a4 a5 a6 a7 a8 a9 a10 a11 a12 a13 a14 a15
  where "h = [a0, a1, a2, a3, a4, a5, a6, a7, a8, a9, a10, a11, a12, a13, a14, a15]"
  using assms by (auto simp: numeral_eq_Suc length_Suc_conv)

lemma get_guid_path_layout:
  "length h = 16 \<Longrightarrow> get_guid_path h = Inr (guid_layout h)"
  by (erule list16) (simp add: get_guid_path_def guid_layout_def hex_group_def)

lemma guid_layout_shape:
  assumes "length h = 16"
  shows "length (guid_layout h) = 39"
    and "take 2 (drop 3 (guid_layout h)) = take 2 (guid_layout h)"
    and "take 2 (guid_layout h) = hex2 (h ! 0)"
    and "guid_layout h ! 2 = CHR ''/''"
    and "\<forall>i \<in> {11, 16, 21, 26}. guid_layout h ! i = CHR ''-''"
  using assms by (auto elim!: list16 simp: guid_layout_def hex_group_def hex2_def)

lemma guid_layout_chars:
  assumes "length h = 16" and "c \<in> set (guid_layout h)"
  shows "lower_hex c \<or> c = CHR ''/'' \<or> c = CHR ''-''"
  using assms(2) by (auto simp: guid_layout_def hex_group_def dest: hex2_lower)

text \<open>
  C6. For every 16-byte hash, \<open>get_guid_path\<close> returns the string
  \<open>XX/XXXXXXXX-XXXX-XXXX-XXXX-XXXXXXXXXXXX\<close>: the directory is the hex pair of byte 0,
  the file name is the hex pairs of bytes 0..15 in groups of 4, 2, 2, 2 and 6 separated
  by dashes, every other character is a lowercase hexadecimal digit, and the first two
  characters of the file name equal the directory segment. The result depends on the
  hash bytes only.
\<close>

theorem get_guid_path_format:
  assumes "length h = 16"
  shows "get_guid_path h = Inr (guid_layout h)
    \<and> length (guid_layout h) = 39
    \<and> guid_layout h ! 2 = CHR ''/''
    \<and> (\<forall>i \<in> {11, 16, 21, 26}. guid_layout h ! i = CHR ''-'')
    \<and> (\<forall>c \<in> set (guid_layout h). lower_hex c \<or> c = CHR ''/'' \<or> c = CHR ''-'')
    \<and> take 2 (drop 3 (guid_layout h)) = take 2 (guid_layout h)
    \<and> take 2 (guid_layout h) = hex2 (h ! 0)"
  using assms get_guid_path_layout [of h] guid_layout_shape [of h] guid_layout_chars [of h]
  by blast

theorem get_guid_path_format_witness:
  "get_guid_path [0x0c, 0x36, 0x39, 0x8b, 0x90, 0xf9, 0x47, 0xcb,
                  0xb9, 0x8f, 0x6e, 0x46, 0x9a, 0x78, 0x8c, 0x2e]
     = Inr ''0c/0c36398b-90f9-47cb-b98f-6e469a788c2e''"
proof -
  have "length [0x0c, 0x36, 0x39, 0x8b, 0x90, 0xf9, 0x47, 0xcb,
                0xb9, 0x8f, 0x6e, 0x46, 0x9a, 0x78, 0x8c, 0x2e :: byte] = 16"
    by simp
  from get_guid_path_format [OF this] show ?thesis
    by (simp add: guid_layout_def hex_group_def hex2_def hex_digit_def)
qed

end
